theory Spec2Isabelle
  imports Complex_Main "HOL-Library.AList" "HOL-Library.Char_ord" "HOL-Library.List_Lexorder"
    "HOL-Library.Multiset"
begin

section \<open>Data model\<close>

text \<open>
  The notebook \<^verbatim>\<open>pipelines/exercise.ipynb\<close> is the whole program: two code cells that
  call pandas and scikit-learn. The statements of the notebook are translated as they
  stand. Of the library calls, those whose result the notebook's behaviour depends on in
  detail (\<^verbatim>\<open>cat.codes\<close>, the sizes and the row selection of \<^verbatim>\<open>train_test_split\<close>,
  \<^verbatim>\<open>accuracy_score\<close>, the rows and columns that the rendering of a frame shows) are
  written out after the documented behaviour of the libraries; the others (\<^verbatim>\<open>read_csv\<close>, the formatting of entries, the random permutation,
  \<^verbatim>\<open>fit\<close>, \<^verbatim>\<open>predict\<close>) are parameters.

  The notebook works on one pandas DataFrame. A DataFrame is an ordered collection of
  named columns; every column has one dtype. The columns that \<^verbatim>\<open>read_csv\<close> produces
  are object columns (strings, a missing entry is NaN), float columns (a missing entry is
  NaN) and integer columns (no missing entries). A missing entry is \<open>None\<close>.
\<close>

datatype column =
    ObjCol "string option list"
  | FloatCol "rat option list"
  | IntCol "int list"

type_synonym dataframe = "(string \<times> column) list"

text \<open>A Python float as far as the notebook looks at it: a finite value or NaN.\<close>

datatype pyfloat = Finite rat | NaN

text \<open>
  The exceptions of a run. \<open>KeyError\<close> is raised by the column lookups of the notebook,
  \<open>ValueError\<close> by the input checks of scikit-learn, \<open>IndexError\<close> by a row selection
  out of range, and \<open>LibraryError\<close> carries whatever else a library call raises (for
  example \<^verbatim>\<open>FileNotFoundError\<close> or \<^verbatim>\<open>ParserError\<close> from \<^verbatim>\<open>read_csv\<close>).
\<close>

datatype error = KeyError string | ValueError string | IndexError string | LibraryError string

text \<open>
  What \<^verbatim>\<open>print(df)\<close> writes, by its content: the names and the written entries of the
  columns that are shown, the labels of the rows that are shown, and the numbers of rows
  and columns, which are written below a table that is not shown in full. Padding, the
  wrapping of wide tables and the dots that stand for what is left out are layout and
  are not recorded.
\<close>

record rendering =
  shown_columns :: "(string \<times> string list) list"
  shown_index :: "nat list"
  dimensions :: "(nat \<times> nat) option"

text \<open>
  What a \<^verbatim>\<open>print\<close> call writes to standard output: \<open>PrintFrame r\<close> is the table as
  rendered, \<open>PrintAccuracy a\<close> is the line \<^verbatim>\<open>f"Accuracy: {accuracy}"\<close> and
  \<open>PrintText s\<close> is the line \<open>s\<close>.
\<close>

datatype out = PrintFrame rendering | PrintAccuracy pyfloat | PrintText string

text \<open>
  The library calls whose results the notebook only passes on are parameters of the
  model: reading the file, the text that pandas writes for the entries of a column (one
  string per entry), the pseudo-random permutation that a \<^verbatim>\<open>RandomState\<close> with a given
  seed draws for a given number of rows, and fitting and applying the
  \<^verbatim>\<open>LogisticRegression\<close> estimator (\<open>'m\<close> is the type of fitted models).
\<close>

record 'm library =
  read_csv :: "string \<Rightarrow> error + dataframe"
  format_values :: "column \<Rightarrow> string list"
  permutation :: "nat \<Rightarrow> nat \<Rightarrow> nat list"
  fit :: "dataframe \<Rightarrow> column \<Rightarrow> error + 'm"
  predict :: "'m \<Rightarrow> dataframe \<Rightarrow> error + column"

text \<open>The variables of the notebook after its last cell.\<close>

record 'm namespace =
  df :: dataframe
  X :: dataframe
  y :: column
  X_train :: dataframe
  X_test :: dataframe
  y_train :: column
  y_test :: column
  model :: 'm
  y_pred :: column
  accuracy :: pyfloat

section \<open>DataFrame operations\<close>

definition and_then :: "error + 'a \<Rightarrow> ('a \<Rightarrow> error + 'b) \<Rightarrow> error + 'b" where
  "and_then r f = (case r of Inl e \<Rightarrow> Inl e | Inr x \<Rightarrow> f x)"

text \<open>\<^verbatim>\<open>df[k]\<close>: the column named \<open>k\<close>, or \<^verbatim>\<open>KeyError\<close>.\<close>

definition getitem :: "dataframe \<Rightarrow> string \<Rightarrow> error + column" where
  "getitem d k = (case map_of d k of None \<Rightarrow> Inl (KeyError k) | Some c \<Rightarrow> Inr c)"

text \<open>\<^verbatim>\<open>df[[k1, ...]]\<close>: the frame of the named columns, or \<^verbatim>\<open>KeyError\<close>.\<close>

fun getitems :: "dataframe \<Rightarrow> string list \<Rightarrow> error + dataframe" where
  "getitems d [] = Inr []"
| "getitems d (k # ks) =
     and_then (getitem d k) (\<lambda>c. and_then (getitems d ks) (\<lambda>r. Inr ((k, c) # r)))"

text \<open>
  \<^verbatim>\<open>df[k] = c\<close>: an existing column is replaced where it stands, a new one is appended.
\<close>

definition setitem :: "dataframe \<Rightarrow> string \<Rightarrow> column \<Rightarrow> dataframe" where
  "setitem d k c = AList.update k c d"

fun length_col :: "column \<Rightarrow> nat" where
  "length_col (ObjCol xs) = length xs"
| "length_col (FloatCol xs) = length xs"
| "length_col (IntCol xs) = length xs"

definition nrows :: "dataframe \<Rightarrow> nat" where
  "nrows d = (case d of [] \<Rightarrow> 0 | (k, c) # r \<Rightarrow> length_col c)"

text \<open>The rows at the given positions, all of them in range.\<close>

fun take_col :: "nat list \<Rightarrow> column \<Rightarrow> column" where
  "take_col idx (ObjCol xs) = ObjCol (map (\<lambda>i. xs ! i) idx)"
| "take_col idx (FloatCol xs) = FloatCol (map (\<lambda>i. xs ! i) idx)"
| "take_col idx (IntCol xs) = IntCol (map (\<lambda>i. xs ! i) idx)"

definition take_frame :: "nat list \<Rightarrow> dataframe \<Rightarrow> dataframe" where
  "take_frame idx d = map (\<lambda>(k, c). (k, take_col idx c)) d"

text \<open>
  Positional row selection, as scikit-learn's \<^verbatim>\<open>_safe_indexing\<close> does it on a Series and
  on a DataFrame: a position beyond the last row is an \<^verbatim>\<open>IndexError\<close>.
\<close>

definition safe_indexing_col :: "column \<Rightarrow> nat list \<Rightarrow> error + column" where
  "safe_indexing_col c idx =
     (if list_all (\<lambda>i. i < length_col c) idx then Inr (take_col idx c)
      else Inl (IndexError ''positional indexers are out-of-bounds''))"

definition safe_indexing :: "dataframe \<Rightarrow> nat list \<Rightarrow> error + dataframe" where
  "safe_indexing d idx =
     (if list_all (\<lambda>i. i < nrows d) idx then Inr (take_frame idx d)
      else Inl (IndexError ''positional indexers are out-of-bounds''))"

section \<open>Printing a frame\<close>

text \<open>
  The display options of pandas in a notebook kernel, at their defaults: a frame of more
  than \<^verbatim>\<open>display.max_rows\<close> rows is shown by \<^verbatim>\<open>display.min_rows\<close> of its rows, and
  a frame of more than \<^verbatim>\<open>display.max_columns\<close> columns by that many of its columns.
\<close>

definition max_rows :: nat where
  "max_rows = 60"

definition min_rows :: nat where
  "min_rows = 10"

definition max_columns :: nat where
  "max_columns = 20"

text \<open>
  The positions of the rows shown of a frame of \<open>n\<close> rows: all of them, or the first and
  the last \<open>min_rows div 2\<close> when there are more than \<open>max_rows\<close>.
\<close>

definition shown_positions :: "nat \<Rightarrow> nat list" where
  "shown_positions n =
     (if max_rows < n then [0..<min_rows div 2] @ [n - min_rows div 2..<n] else [0..<n])"

text \<open>
  The columns shown: all of them, or the first and the last \<open>max_columns div 2\<close> when
  there are more than \<open>max_columns\<close>.
\<close>

definition shown_part :: "dataframe \<Rightarrow> dataframe" where
  "shown_part d =
     (if max_columns < length d
      then take (max_columns div 2) d @ drop (length d - max_columns div 2) d
      else d)"

text \<open>
  \<^verbatim>\<open>repr(df)\<close>, which is what \<^verbatim>\<open>print(df)\<close> writes. The frame is cut down to the rows
  and columns shown first, and the entries of what remains are formatted column by
  column. The row labels of a frame that \<^verbatim>\<open>read_csv\<close> has loaded are the row positions,
  and its columns all have \<open>nrows d\<close> entries.
\<close>

definition repr_frame :: "'m library \<Rightarrow> dataframe \<Rightarrow> rendering" where
  "repr_frame lib d =
     \<lparr>shown_columns =
        map (\<lambda>(k, c). (k, format_values lib (take_col (shown_positions (nrows d)) c)))
          (shown_part d),
      shown_index = shown_positions (nrows d),
      dimensions =
        (if max_rows < nrows d \<or> max_columns < length d then Some (nrows d, length d)
         else None)\<rparr>"

section \<open>Category codes\<close>

text \<open>
  \<^verbatim>\<open>s.astype('category').cat.codes\<close>: the categories are the distinct values of the
  column that are not missing, in sorted order; the code of an entry is the position of
  its value among the categories, and the code of a missing entry is \<open>-1\<close>.
\<close>

definition categories :: "'a::linorder option list \<Rightarrow> 'a list" where
  "categories xs = sort (remdups (map the (filter (\<lambda>x. x \<noteq> None) xs)))"

fun index_of :: "'a \<Rightarrow> 'a list \<Rightarrow> nat" where
  "index_of v [] = 0"
| "index_of v (x # xs) = (if x = v then 0 else Suc (index_of v xs))"

definition codes :: "'a::linorder option list \<Rightarrow> int list" where
  "codes xs =
     map (\<lambda>x. case x of None \<Rightarrow> - 1 | Some v \<Rightarrow> int (index_of v (categories xs))) xs"

fun cat_codes :: "column \<Rightarrow> int list" where
  "cat_codes (ObjCol xs) = codes xs"
| "cat_codes (FloatCol xs) = codes xs"
| "cat_codes (IntCol xs) = codes (map Some xs)"

section \<open>Splitting and scoring\<close>

text \<open>
  \<^verbatim>\<open>check_random_state\<close>: an integer seed gives a generator of its own, and without a
  seed the generator of the process is used, whose state \<open>entropy\<close> differs from run to
  run.
\<close>

definition check_random_state :: "nat option \<Rightarrow> nat \<Rightarrow> nat" where
  "check_random_state random_state entropy =
     (case random_state of None \<Rightarrow> entropy | Some seed \<Rightarrow> seed)"

text \<open>
  The row positions of one shuffled split (\<^verbatim>\<open>ShuffleSplit\<close> with a float \<^verbatim>\<open>test_size\<close> and
  no \<^verbatim>\<open>train_size\<close>): the test part has \<open>ceil (test_size * n_samples)\<close> rows and is the
  front of the permutation, the training part has the remaining rows. An empty training
  part is a \<^verbatim>\<open>ValueError\<close>. The result is \<open>(train, test)\<close>.

  \<^verbatim>\<open>test_size\<close> is the rational \<open>3/10\<close> here and the double nearest to it in Python; both
  give the same ceiling for every row count below \<open>2^50\<close>.
\<close>

definition shuffle_split ::
  "'m library \<Rightarrow> nat \<Rightarrow> nat \<Rightarrow> rat \<Rightarrow> nat option \<Rightarrow> error + (nat list \<times> nat list)" where
  "shuffle_split lib entropy n_samples test_size random_state =
     (let n_test = nat \<lceil>test_size * of_nat n_samples\<rceil>;
          n_train = n_samples - n_test
      in if n_train = 0
         then Inl (ValueError ''the resulting train set will be empty'')
         else
           let perm = permutation lib (check_random_state random_state entropy) n_samples;
               ind_test = take n_test perm;
               ind_train = take n_train (drop n_test perm)
           in Inr (ind_train, ind_test))"

text \<open>
  \<^verbatim>\<open>train_test_split(X, y, test_size, random_state)\<close>: both inputs must have the same
  number of rows; the result is \<open>(X_train, X_test, y_train, y_test)\<close>.
\<close>

definition train_test_split ::
  "'m library \<Rightarrow> nat \<Rightarrow> dataframe \<Rightarrow> column \<Rightarrow> rat \<Rightarrow> nat option
     \<Rightarrow> error + (dataframe \<times> dataframe \<times> column \<times> column)" where
  "train_test_split lib entropy Xa ya test_size random_state =
     (if length_col ya \<noteq> nrows Xa
      then Inl (ValueError ''Found input variables with inconsistent numbers of samples'')
      else
        and_then (shuffle_split lib entropy (nrows Xa) test_size random_state)
          (\<lambda>(train, test).
             and_then (safe_indexing Xa train) (\<lambda>Xa_train.
             and_then (safe_indexing Xa test) (\<lambda>Xa_test.
             and_then (safe_indexing_col ya train) (\<lambda>ya_train.
             and_then (safe_indexing_col ya test) (\<lambda>ya_test.
               Inr (Xa_train, Xa_test, ya_train, ya_test)))))))"

text \<open>
  The entries of a column as the values that \<^verbatim>\<open>==\<close> compares: a missing entry is NaN,
  which is equal to nothing, itself included.
\<close>

datatype scalar = Str string | Num rat | Missing

fun to_numpy :: "column \<Rightarrow> scalar list" where
  "to_numpy (ObjCol xs) = map (\<lambda>x. case x of None \<Rightarrow> Missing | Some s \<Rightarrow> Str s) xs"
| "to_numpy (FloatCol xs) = map (\<lambda>x. case x of None \<Rightarrow> Missing | Some r \<Rightarrow> Num r) xs"
| "to_numpy (IntCol xs) = map (\<lambda>i. Num (of_int i)) xs"

definition scalar_eq :: "scalar \<Rightarrow> scalar \<Rightarrow> bool" where
  "scalar_eq a b = (a \<noteq> Missing \<and> a = b)"

text \<open>
  The mean of an array of booleans; NaN for the empty array. The mean is the exact ratio
  of two counts here and the double nearest to it in Python; below \<open>2^52\<close> entries the
  two compare with \<open>0.5\<close> in the same way.
\<close>

definition average :: "bool list \<Rightarrow> pyfloat" where
  "average bs =
     (if bs = [] then NaN
      else Finite (of_nat (length (filter (\<lambda>b. b) bs)) / of_nat (length bs)))"

text \<open>\<^verbatim>\<open>accuracy_score(y_true, y_pred)\<close>: the mean of \<^verbatim>\<open>y_true == y_pred\<close>.\<close>

definition accuracy_score :: "column \<Rightarrow> column \<Rightarrow> error + pyfloat" where
  "accuracy_score y_true y_predicted =
     (if length_col y_true \<noteq> length_col y_predicted
      then Inl (ValueError ''Found input variables with inconsistent numbers of samples'')
      else Inr (average (map2 scalar_eq (to_numpy y_true) (to_numpy y_predicted))))"

text \<open>\<^verbatim>\<open>a > b\<close> on floats: false as soon as one side is NaN.\<close>

fun float_gt :: "pyfloat \<Rightarrow> pyfloat \<Rightarrow> bool" where
  "float_gt (Finite a) (Finite b) = (b < a)"
| "float_gt _ _ = False"

section \<open>The notebook\<close>

text \<open>
  The first code cell:
  \<^verbatim>\<open>
  df = pd.read_csv('../data/penguins.csv')
  print(df)\<close>
  The result is what was printed and either the exception or the loaded frame.
\<close>

definition cell1 :: "'m library \<Rightarrow> out list \<times> (error + dataframe)" where
  "cell1 lib =
     (case read_csv lib ''../data/penguins.csv'' of
        Inl e \<Rightarrow> ([], Inl e)
      | Inr d \<Rightarrow> ([PrintFrame (repr_frame lib d)], Inr d))"

definition has_power :: string where
  "has_power = ''The sex column has some predictive power for the species column.''"

definition no_power :: string where
  "no_power = ''The sex column does not have predictive power for the species column.''"

text \<open>
  The second code cell. Both \<^verbatim>\<open>print\<close> calls come after every call that can raise, so the
  cell prints either nothing (and raises) or its two lines.
  \<^verbatim>\<open>
  df['sex'] = df['sex'].astype('category').cat.codes
  df['species'] = df['species'].astype('category').cat.codes
  X = df[['sex']]
  y = df['species']
  X_train, X_test, y_train, y_test = train_test_split(X, y, test_size=0.3, random_state=42)
  model = LogisticRegression()
  model.fit(X_train, y_train)
  y_pred = model.predict(X_test)
  accuracy = accuracy_score(y_test, y_pred)
  print(f"Accuracy: {accuracy}")
  if accuracy > 0.5:
      print("The sex column has some predictive power for the species column.")
  else:
      print("The sex column does not have predictive power for the species column.")\<close>
\<close>

definition cell2 :: "'m library \<Rightarrow> nat \<Rightarrow> dataframe \<Rightarrow> error + ('m namespace \<times> out list)" where
  "cell2 lib entropy df0 =
     and_then (getitem df0 ''sex'') (\<lambda>sex.
     let df1 = setitem df0 ''sex'' (IntCol (cat_codes sex)) in
     and_then (getitem df1 ''species'') (\<lambda>species.
     let df2 = setitem df1 ''species'' (IntCol (cat_codes species)) in
     and_then (getitems df2 [''sex'']) (\<lambda>Xa.
     and_then (getitem df2 ''species'') (\<lambda>ya.
     and_then (train_test_split lib entropy Xa ya (3 / 10) (Some 42))
       (\<lambda>(Xa_train, Xa_test, ya_train, ya_test).
     and_then (fit lib Xa_train ya_train) (\<lambda>m.
     and_then (predict lib m Xa_test) (\<lambda>ya_pred.
     and_then (accuracy_score ya_test ya_pred) (\<lambda>acc.
       Inr (\<lparr>df = df2, X = Xa, y = ya, X_train = Xa_train, X_test = Xa_test,
             y_train = ya_train, y_test = ya_test, model = m, y_pred = ya_pred,
             accuracy = acc\<rparr>,
            [PrintAccuracy acc,
             PrintText (if float_gt acc (Finite (1 / 2)) then has_power else no_power)])))))))))"

text \<open>
  A run of the notebook, both cells in order. \<open>entropy\<close> is the state of the random
  generator of the process, which differs between two runs of the same notebook on the
  same file. The result is the standard output and either the exception that ended the
  run or the final variables.
\<close>

definition run :: "'m library \<Rightarrow> nat \<Rightarrow> out list \<times> (error + 'm namespace)" where
  "run lib entropy =
     (case cell1 lib of
        (out1, Inl e) \<Rightarrow> (out1, Inl e)
      | (out1, Inr d) \<Rightarrow>
          (case cell2 lib entropy d of
             Inl e \<Rightarrow> (out1, Inl e)
           | Inr (ns, out2) \<Rightarrow> (out1 @ out2, Inr ns)))"

section \<open>Small examples\<close>

text \<open>
  A stand-in library over a given file content: the file exists at the notebook's path
  only, a string is written as it is, a number as \<^verbatim>\<open>#\<close> and a missing entry as
  \<^verbatim>\<open>NaN\<close>, the permutation reverses the rows, and the fitted model predicts the first
  training label for every row.
\<close>

definition toy_format :: "column \<Rightarrow> string list" where
  "toy_format c =
     map (\<lambda>v. case v of Str s \<Rightarrow> s | Num r \<Rightarrow> ''#'' | Missing \<Rightarrow> ''NaN'') (to_numpy c)"

fun first_label :: "column \<Rightarrow> int" where
  "first_label (IntCol (v # vs)) = v"
| "first_label _ = 0"

definition toy_lib :: "dataframe \<Rightarrow> int library" where
  "toy_lib d =
     \<lparr>read_csv = (\<lambda>p. if p = ''../data/penguins.csv'' then Inr d
                       else Inl (LibraryError ''FileNotFoundError'')),
      format_values = toy_format,
      permutation = (\<lambda>seed n. rev [0..<n]),
      fit = (\<lambda>Xa ya. Inr (first_label ya)),
      predict = (\<lambda>m Xa. Inr (IntCol (replicate (nrows Xa) m)))\<rparr>"

text \<open>Five penguins, one of them without measurements and without a recorded sex.\<close>

definition penguins :: dataframe where
  "penguins =
     [(''species'', ObjCol [Some ''Adelie'', Some ''Gentoo'', Some ''Adelie'', Some ''Adelie'',
                            Some ''Chinstrap'']),
      (''island'', ObjCol [Some ''Torgersen'', Some ''Biscoe'', Some ''Dream'', Some ''Dream'',
                           Some ''Biscoe'']),
      (''culmen_length_mm'', FloatCol [Some (391 / 10), Some (468 / 10), None, Some 50, Some 45]),
      (''culmen_depth_mm'', FloatCol [Some (187 / 10), Some (143 / 10), None, Some 19, Some 15]),
      (''flipper_length_mm'', FloatCol [Some 181, Some 215, None, Some 196, Some 212]),
      (''body_mass_g'', FloatCol [Some 3750, Some 4850, None, Some 3800, Some 5200]),
      (''sex'', ObjCol [Some ''MALE'', Some ''FEMALE'', None, Some ''MALE'', Some ''FEMALE''])]"

definition toy :: "int library" where
  "toy = toy_lib penguins"

text \<open>The variables and the output at the end of the run on the five penguins.\<close>

definition toy_ns :: "int namespace" where
  "toy_ns =
     \<lparr>df = [(''species'', IntCol [0, 2, 0, 0, 1]),
            (''island'', ObjCol [Some ''Torgersen'', Some ''Biscoe'', Some ''Dream'', Some ''Dream'',
                                 Some ''Biscoe'']),
            (''culmen_length_mm'',
               FloatCol [Some (391 / 10), Some (468 / 10), None, Some 50, Some 45]),
            (''culmen_depth_mm'',
               FloatCol [Some (187 / 10), Some (143 / 10), None, Some 19, Some 15]),
            (''flipper_length_mm'', FloatCol [Some 181, Some 215, None, Some 196, Some 212]),
            (''body_mass_g'', FloatCol [Some 3750, Some 4850, None, Some 3800, Some 5200]),
            (''sex'', IntCol [1, 0, - 1, 1, 0])],
      X = [(''sex'', IntCol [1, 0, - 1, 1, 0])],
      y = IntCol [0, 2, 0, 0, 1],
      X_train = [(''sex'', IntCol [- 1, 0, 1])],
      X_test = [(''sex'', IntCol [0, 1])],
      y_train = IntCol [0, 2, 0],
      y_test = IntCol [1, 0],
      model = 0,
      y_pred = IntCol [0, 0],
      accuracy = Finite (1 / 2)\<rparr>"

definition toy_printed :: "out list" where
  "toy_printed =
     [PrintFrame (repr_frame toy penguins), PrintAccuracy (Finite (1 / 2)), PrintText no_power]"

text \<open>Four penguins of two species; the stand-in model is right on every test row.\<close>

definition four_penguins :: dataframe where
  "four_penguins =
     [(''species'', ObjCol [Some ''Gentoo'', Some ''Adelie'', Some ''Adelie'', Some ''Adelie'']),
      (''sex'', ObjCol [Some ''MALE'', Some ''FEMALE'', Some ''MALE'', Some ''FEMALE''])]"

text \<open>
  A table with the shape of the one behind the output stored in the notebook: 344 rows
  and seven columns. The first five and the last five rows are the ones that the stored
  output shows; the 334 rows between them are not in the repository and are filled in
  with one row.
\<close>

definition recorded_shape :: dataframe where
  "recorded_shape =
     [(''species'', ObjCol (replicate 5 (Some ''Adelie'') @ replicate 334 (Some ''Chinstrap'')
                            @ replicate 5 (Some ''Gentoo''))),
      (''island'', ObjCol (replicate 5 (Some ''Torgersen'') @ replicate 334 (Some ''Dream'')
                           @ replicate 5 (Some ''Biscoe''))),
      (''culmen_length_mm'',
         FloatCol ([Some (391 / 10), Some (395 / 10), Some (403 / 10), None, Some (367 / 10)]
                   @ replicate 334 (Some 49)
                   @ [None, Some (468 / 10), Some (504 / 10), Some (452 / 10), Some (499 / 10)])),
      (''culmen_depth_mm'',
         FloatCol ([Some (187 / 10), Some (174 / 10), Some 18, None, Some (193 / 10)]
                   @ replicate 334 (Some 18)
                   @ [None, Some (143 / 10), Some (157 / 10), Some (148 / 10), Some (161 / 10)])),
      (''flipper_length_mm'',
         FloatCol ([Some 181, Some 186, Some 195, None, Some 193]
                   @ replicate 334 (Some 196)
                   @ [None, Some 215, Some 222, Some 212, Some 213])),
      (''body_mass_g'',
         FloatCol ([Some 3750, Some 3800, Some 3250, None, Some 3450]
                   @ replicate 334 (Some 3700)
                   @ [None, Some 4850, Some 5750, Some 5200, Some 5400])),
      (''sex'',
         ObjCol ([Some ''MALE'', Some ''FEMALE'', Some ''FEMALE'', None, Some ''FEMALE'']
                 @ replicate 334 (Some ''MALE'')
                 @ [None, Some ''FEMALE'', Some ''MALE'', Some ''FEMALE'', Some ''MALE'']))]"

definition four_ns :: "int namespace" where
  "four_ns =
     \<lparr>df = [(''species'', IntCol [1, 0, 0, 0]), (''sex'', IntCol [1, 0, 1, 0])],
      X = [(''sex'', IntCol [1, 0, 1, 0])],
      y = IntCol [1, 0, 0, 0],
      X_train = [(''sex'', IntCol [0, 1])],
      X_test = [(''sex'', IntCol [0, 1])],
      y_train = IntCol [0, 1],
      y_test = IntCol [0, 0],
      model = 0,
      y_pred = IntCol [0, 0],
      accuracy = Finite 1\<rparr>"

definition four_printed :: "out list" where
  "four_printed =
     [PrintFrame (repr_frame (toy_lib four_penguins) four_penguins), PrintAccuracy (Finite 1),
      PrintText has_power]"

section \<open>Facts about frames and category codes\<close>

lemma and_then_Inr_iff: "and_then r f = Inr z \<longleftrightarrow> (\<exists>v. r = Inr v \<and> f v = Inr z)"
  by (cases r) (simp_all add: and_then_def)

lemma getitem_setitem:
  "getitem (setitem d k c) k' = (if k' = k then Inr c else getitem d k')"
  by (simp add: getitem_def setitem_def update_conv')

lemma names_setitem:
  "k \<in> fst ` set d \<Longrightarrow> map fst (setitem d k c) = map fst d"
  by (simp add: setitem_def update_keys)

lemma getitem_Inr_name: "getitem d k = Inr c \<Longrightarrow> k \<in> fst ` set d"
  by (auto simp: getitem_def split: option.splits dest: map_of_SomeD intro: rev_image_eqI)

lemma length_to_numpy: "length (to_numpy c) = length_col c"
  by (cases c) simp_all

lemma nth_index_of: "v \<in> set xs \<Longrightarrow> xs ! index_of v xs = v"
  by (induction xs) auto

lemma index_of_less: "v \<in> set xs \<Longrightarrow> index_of v xs < length xs"
  by (induction xs) auto

lemma index_of_eq_iff:
  assumes "v \<in> set xs" "w \<in> set xs"
  shows "index_of v xs = index_of w xs \<longleftrightarrow> v = w"
proof
  assume "index_of v xs = index_of w xs"
  then have "xs ! index_of v xs = xs ! index_of w xs" by simp
  with assms show "v = w" by (simp add: nth_index_of)
qed simp

lemma set_categories: "set (categories xs) = {v. Some v \<in> set xs}"
  by (force simp: categories_def)

lemma distinct_categories: "distinct (categories xs)"
  by (simp add: categories_def)

lemma sorted_categories: "sorted (categories xs)"
  by (simp add: categories_def)

lemma length_codes: "length (codes xs) = length xs"
  by (simp add: codes_def)

lemma codes_missing:
  assumes "i < length xs"
  shows "codes xs ! i = - 1 \<longleftrightarrow> xs ! i = None"
  using assms by (simp add: codes_def split: option.splits)

lemma codes_eq_iff:
  assumes "i < length xs" "j < length xs"
  shows "codes xs ! i = codes xs ! j \<longleftrightarrow> xs ! i = xs ! j"
proof (cases "xs ! i")
  case None
  have "codes xs ! i = - 1"
    using assms(1) None by (simp only: codes_missing)
  moreover have "codes xs ! j = - 1 \<longleftrightarrow> xs ! j = None"
    using assms(2) by (rule codes_missing)
  ultimately show ?thesis
    unfolding None by metis
next
  case (Some v)
  note vi = this
  show ?thesis
  proof (cases "xs ! j")
    case None
    have "codes xs ! j = - 1"
      using assms(2) None by (simp only: codes_missing)
    moreover have "codes xs ! i \<noteq> - 1"
      using assms(1) vi by (simp only: codes_missing) simp
    ultimately show ?thesis
      unfolding None vi by simp
  next
    case (Some w)
    from assms vi have v: "v \<in> set (categories xs)"
      by (metis mem_Collect_eq nth_mem set_categories)
    from assms Some have w: "w \<in> set (categories xs)"
      by (metis mem_Collect_eq nth_mem set_categories)
    from assms vi Some index_of_eq_iff [OF v w] show ?thesis
      by (simp add: codes_def)
  qed
qed

lemma codes_range:
  assumes "i < length xs"
  shows "- 1 \<le> codes xs ! i \<and> codes xs ! i < int (length (categories xs))"
proof (cases "xs ! i")
  case None
  with assms show ?thesis by (simp add: codes_def)
next
  case (Some v)
  with assms have "v \<in> set (categories xs)"
    by (metis mem_Collect_eq nth_mem set_categories)
  with assms Some show ?thesis
    by (simp add: codes_def index_of_less)
qed

lemma length_cat_codes: "length (cat_codes c) = length_col c"
  by (cases c) (simp_all add: length_codes)

lemma cat_codes_missing:
  assumes "i < length_col c"
  shows "cat_codes c ! i = - 1 \<longleftrightarrow> to_numpy c ! i = Missing"
  using assms by (cases c) (auto simp: codes_missing split: option.splits)

lemma cat_codes_eq_iff:
  assumes "i < length_col c" "j < length_col c"
  shows "cat_codes c ! i = cat_codes c ! j \<longleftrightarrow> to_numpy c ! i = to_numpy c ! j"
  using assms by (cases c) (auto simp: codes_eq_iff split: option.splits)

section \<open>Facts about the split and the cells\<close>

lemma ceil_three_tenths: "nat \<lceil>(3 / 10 :: rat) * of_nat n\<rceil> = (3 * n + 9) div 10"
proof -
  have "(3 / 10 :: rat) * of_nat n = of_int (3 * int n) / of_int 10"
    by simp
  then have "\<lceil>(3 / 10 :: rat) * of_nat n\<rceil> = - (- (3 * int n) div 10)"
    by (simp only: ceiling_divide_eq_div)
  then have "nat \<lceil>(3 / 10 :: rat) * of_nat n\<rceil> = nat (- (- (3 * int n) div 10))"
    by (rule arg_cong)
  also have "- (- (3 * int n) div 10) = int ((3 * n + 9) div 10)"
    by (simp add: zdiv_int)
  finally show ?thesis
    by simp
qed

lemma shuffle_split_Inr:
  assumes "shuffle_split lib entropy n ts rs = Inr (train, test)"
  shows "test = take (nat \<lceil>ts * of_nat n\<rceil>) (permutation lib (check_random_state rs entropy) n)"
    and "train = take (n - nat \<lceil>ts * of_nat n\<rceil>)
                   (drop (nat \<lceil>ts * of_nat n\<rceil>) (permutation lib (check_random_state rs entropy) n))"
    and "nat \<lceil>ts * of_nat n\<rceil> < n"
  using assms by (auto simp: shuffle_split_def Let_def split: if_splits)

lemma shuffle_split_partition:
  assumes split: "shuffle_split lib entropy n ts rs = Inr (train, test)"
    and perm: "mset (permutation lib (check_random_state rs entropy) n) = mset [0..<n]"
  shows "test @ train = permutation lib (check_random_state rs entropy) n"
    and "length test = nat \<lceil>ts * of_nat n\<rceil>"
    and "length train = n - length test"
    and "distinct (test @ train)"
    and "set test \<union> set train = {0..<n}"
proof -
  let ?p = "permutation lib (check_random_state rs entropy) n"
  let ?k = "nat \<lceil>ts * of_nat n\<rceil>"
  from perm have len: "length ?p = n"
    by (metis length_upt mset_eq_length minus_nat.diff_0)
  from shuffle_split_Inr [OF split]
  have te: "test = take ?k ?p" and tr: "train = take (n - ?k) (drop ?k ?p)" and k: "?k < n"
    by simp_all
  from len have tr': "train = drop ?k ?p"
    unfolding tr by simp
  show app: "test @ train = ?p"
    unfolding te tr' by simp
  from len k show lt: "length test = ?k"
    unfolding te by simp
  from len show "length train = n - length test"
    unfolding lt tr' by simp
  from perm have "distinct ?p"
    by (metis distinct_upt mset_eq_imp_distinct_iff)
  then show "distinct (test @ train)"
    unfolding app .
  from perm have "set ?p = {0..<n}"
    by (metis mset_eq_setD set_upt)
  then show "set test \<union> set train = {0..<n}"
    unfolding app [symmetric] by simp
qed

lemma run_Inr:
  assumes "run lib entropy = (printed, Inr ns)"
  obtains d out2 where
    "read_csv lib ''../data/penguins.csv'' = Inr d"
    "cell2 lib entropy d = Inr (ns, out2)"
    "printed = PrintFrame (repr_frame lib d) # out2"
  using assms
  by (auto simp: run_def cell1_def split: sum.splits prod.splits)

lemma cell2_Inr:
  assumes "cell2 lib entropy df0 = Inr (ns, out2)"
  obtains sex species train test where
    "getitem df0 ''sex'' = Inr sex"
    "getitem df0 ''species'' = Inr species"
    "df ns = setitem (setitem df0 ''sex'' (IntCol (cat_codes sex))) ''species''
               (IntCol (cat_codes species))"
    "X ns = [(''sex'', IntCol (cat_codes sex))]"
    "y ns = IntCol (cat_codes species)"
    "length_col species = length_col sex"
    "shuffle_split lib entropy (length_col sex) (3 / 10) (Some 42) = Inr (train, test)"
    "X_train ns = take_frame train (X ns)"
    "X_test ns = take_frame test (X ns)"
    "y_train ns = take_col train (y ns)"
    "y_test ns = take_col test (y ns)"
    "fit lib (X_train ns) (y_train ns) = Inr (model ns)"
    "predict lib (model ns) (X_test ns) = Inr (y_pred ns)"
    "accuracy_score (y_test ns) (y_pred ns) = Inr (accuracy ns)"
    "out2 = [PrintAccuracy (accuracy ns),
             PrintText (if float_gt (accuracy ns) (Finite (1 / 2)) then has_power else no_power)]"
  using assms
  by (auto simp: cell2_def and_then_Inr_iff Let_def getitem_setitem train_test_split_def nrows_def
      length_cat_codes safe_indexing_def safe_indexing_col_def split: if_splits prod.splits)

lemma messages_differ: "has_power \<noteq> no_power"
  by (simp add: has_power_def no_power_def)

lemma shuffle_split_seeded:
  "shuffle_split lib entropy1 n ts (Some seed) = shuffle_split lib entropy2 n ts (Some seed)"
  by (simp add: shuffle_split_def check_random_state_def Let_def)

lemma train_test_split_seeded:
  "train_test_split lib entropy1 Xa ya ts (Some seed)
     = train_test_split lib entropy2 Xa ya ts (Some seed)"
  unfolding train_test_split_def shuffle_split_seeded [where ?entropy1.0 = entropy1 and ?entropy2.0 = entropy2] ..

lemma cell2_entropy: "cell2 lib entropy1 d = cell2 lib entropy2 d"
  unfolding cell2_def train_test_split_seeded [where ?entropy1.0 = entropy1 and ?entropy2.0 = entropy2] ..

lemma shuffle_split_read_csv:
  "shuffle_split (lib\<lparr>read_csv := f\<rparr>) entropy n ts rs = shuffle_split lib entropy n ts rs"
  by (simp add: shuffle_split_def Let_def)

lemma cell2_read_csv: "cell2 (lib\<lparr>read_csv := f\<rparr>) entropy d = cell2 lib entropy d"
  unfolding cell2_def train_test_split_def shuffle_split_read_csv by simp

lemma take_frame_single:
  "take_frame idx [(k, IntCol cs)] = [(k, IntCol (map (\<lambda>i. cs ! i) idx))]"
  by (simp add: take_frame_def)

lemma run_split:
  assumes "run lib entropy = (printed, Inr ns)"
  obtains d sex species train test where
    "read_csv lib ''../data/penguins.csv'' = Inr d"
    "getitem d ''sex'' = Inr sex"
    "getitem d ''species'' = Inr species"
    "length_col species = length_col sex"
    "nrows (X ns) = length_col sex"
    "shuffle_split lib entropy (length_col sex) (3 / 10) (Some 42) = Inr (train, test)"
    "df ns = setitem (setitem d ''sex'' (IntCol (cat_codes sex))) ''species''
               (IntCol (cat_codes species))"
    "X ns = [(''sex'', IntCol (cat_codes sex))]"
    "y ns = IntCol (cat_codes species)"
    "X_train ns = [(''sex'', IntCol (map (\<lambda>i. cat_codes sex ! i) train))]"
    "X_test ns = [(''sex'', IntCol (map (\<lambda>i. cat_codes sex ! i) test))]"
    "y_train ns = IntCol (map (\<lambda>i. cat_codes species ! i) train)"
    "y_test ns = IntCol (map (\<lambda>i. cat_codes species ! i) test)"
    "fit lib (X_train ns) (y_train ns) = Inr (model ns)"
    "predict lib (model ns) (X_test ns) = Inr (y_pred ns)"
    "accuracy_score (y_test ns) (y_pred ns) = Inr (accuracy ns)"
proof -
  from assms obtain d out2 where
    rd: "read_csv lib ''../data/penguins.csv'' = Inr d" and
    c2: "cell2 lib entropy d = Inr (ns, out2)"
    by (rule run_Inr)
  from c2 obtain sex species train test where *:
    "getitem d ''sex'' = Inr sex"
    "getitem d ''species'' = Inr species"
    "df ns = setitem (setitem d ''sex'' (IntCol (cat_codes sex))) ''species''
               (IntCol (cat_codes species))"
    "X ns = [(''sex'', IntCol (cat_codes sex))]"
    "y ns = IntCol (cat_codes species)"
    "length_col species = length_col sex"
    "shuffle_split lib entropy (length_col sex) (3 / 10) (Some 42) = Inr (train, test)"
    "X_train ns = take_frame train (X ns)"
    "X_test ns = take_frame test (X ns)"
    "y_train ns = take_col train (y ns)"
    "y_test ns = take_col test (y ns)"
    "fit lib (X_train ns) (y_train ns) = Inr (model ns)"
    "predict lib (model ns) (X_test ns) = Inr (y_pred ns)"
    "accuracy_score (y_test ns) (y_pred ns) = Inr (accuracy ns)"
    by (rule cell2_Inr)
  have n: "nrows (X ns) = length_col sex"
    unfolding *(4) by (simp add: nrows_def length_cat_codes)
  show thesis
  proof (rule that [of d sex species train test])
    show "X_train ns = [(''sex'', IntCol (map (\<lambda>i. cat_codes sex ! i) train))]"
      unfolding *(8) *(4) by (rule take_frame_single)
    show "X_test ns = [(''sex'', IntCol (map (\<lambda>i. cat_codes sex ! i) test))]"
      unfolding *(9) *(4) by (rule take_frame_single)
    show "y_train ns = IntCol (map (\<lambda>i. cat_codes species ! i) train)"
      unfolding *(10) *(5) by simp
    show "y_test ns = IntCol (map (\<lambda>i. cat_codes species ! i) test)"
      unfolding *(11) *(5) by simp
  qed (fact rd n *)+
qed

lemma average_map2:
  assumes "length xs = length ys" "xs \<noteq> []"
  shows "average (map2 P xs ys)
           = Finite (of_nat (card {i. i < length xs \<and> P (xs ! i) (ys ! i)}) / of_nat (length xs))"
proof -
  have "{i. i < length (map2 P xs ys) \<and> map2 P xs ys ! i} = {i. i < length xs \<and> P (xs ! i) (ys ! i)}"
    using assms(1) by auto
  then have "length (filter (\<lambda>b. b) (map2 P xs ys)) = card {i. i < length xs \<and> P (xs ! i) (ys ! i)}"
    by (simp only: length_filter_conv_card)
  moreover have "map2 P xs ys \<noteq> []"
    using assms by (cases xs; cases ys) simp_all
  moreover have "length (map2 P xs ys) = length xs"
    using assms(1) by simp
  ultimately show ?thesis
    by (simp only: average_def if_False)
qed

lemma split_sizes:
  assumes split: "shuffle_split lib entropy n (3 / 10) (Some 42) = Inr (train, test)"
    and perm: "mset (permutation lib 42 n) = mset [0..<n]"
  shows "length test = nat \<lceil>(3 / 10 :: rat) * of_nat n\<rceil>"
    and "length train = n - length test"
    and "0 < length test" and "0 < length train"
    and "3 * n \<le> 10 * length test" and "10 * length test < 3 * n + 10"
    and "distinct train" and "distinct test" and "set train \<inter> set test = {}"
    and "set train \<union> set test = {0..<n}"
    and "test @ train = permutation lib 42 n"
proof -
  from perm have perm': "mset (permutation lib (check_random_state (Some 42) entropy) n) = mset [0..<n]"
    by (simp add: check_random_state_def)
  note part = shuffle_split_partition [OF split perm']
  from shuffle_split_Inr(3) [OF split] have lt: "(3 * n + 9) div 10 < n"
    by (simp only: ceil_three_tenths)
  show lt_eq: "length test = nat \<lceil>(3 / 10 :: rat) * of_nat n\<rceil>"
    by (rule part(2))
  then have lt_div: "length test = (3 * n + 9) div 10"
    by (simp only: ceil_three_tenths)
  show ltr: "length train = n - length test"
    by (rule part(3))
  from lt show "0 < length test" unfolding lt_div by arith
  from lt show "0 < length train" unfolding ltr lt_div by arith
  show "3 * n \<le> 10 * length test" unfolding lt_div by arith
  show "10 * length test < 3 * n + 10" unfolding lt_div by arith
  from part(4) show "distinct train" "distinct test" "set train \<inter> set test = {}"
    by auto
  from part(5) show "set train \<union> set test = {0..<n}"
    by (simp add: Un_commute)
  from part(1) show "test @ train = permutation lib 42 n"
    by (simp add: check_random_state_def)
qed

lemma split_needs_two_rows:
  assumes "n < 2"
  shows "shuffle_split lib entropy n (3 / 10) rs
           = Inl (ValueError ''the resulting train set will be empty'')"
proof -
  from assms have "n - (3 * n + 9) div 10 = 0"
    by arith
  then show ?thesis
    unfolding shuffle_split_def Let_def ceil_three_tenths by simp
qed

lemma run_prints_frame_first:
  assumes "read_csv lib ''../data/penguins.csv'' = Inr d"
  shows "take 1 (fst (run lib entropy)) = [PrintFrame (repr_frame lib d)]"
  using assms by (simp add: run_def cell1_def split: sum.splits prod.splits)

lemma shown_index_repr:
  "shown_index (repr_frame lib d)
     = (if 60 < nrows d then [0..<5] @ [nrows d - 5..<nrows d] else [0..<nrows d])"
  by (simp add: repr_frame_def shown_positions_def max_rows_def min_rows_def)

lemma shown_names_repr:
  "map fst (shown_columns (repr_frame lib d))
     = (if 20 < length d then map fst (take 10 d @ drop (length d - 10) d) else map fst d)"
  by (simp add: repr_frame_def shown_part_def max_columns_def comp_def case_prod_unfold)

lemma dimensions_repr:
  "dimensions (repr_frame lib d)
     = (if 60 < nrows d \<or> 20 < length d then Some (nrows d, length d) else None)"
  by (simp add: repr_frame_def max_rows_def max_columns_def)

lemma repr_frame_read_csv: "repr_frame (lib\<lparr>read_csv := f\<rparr>) d = repr_frame lib d"
  by (simp add: repr_frame_def)

lemma cell1_read_csv:
  assumes "f ''../data/penguins.csv'' = read_csv lib ''../data/penguins.csv''"
  shows "cell1 (lib\<lparr>read_csv := f\<rparr>) = cell1 lib"
  unfolding cell1_def repr_frame_read_csv using assms by simp

text \<open>
  The output stored in the notebook is that of a run on a table of 344 rows, with the
  accuracy 0.4807692307692308, which is \<open>50/104\<close>: the test part of 344 rows has 104
  rows.
\<close>

lemma recorded_run_sizes:
  assumes "shuffle_split lib entropy 344 (3 / 10) (Some 42) = Inr (train, test)"
    and "mset (permutation lib 42 344) = mset [0..<344]"
  shows "length test = 104 \<and> length train = 240"
  using split_sizes(1,2) [OF assms] by (simp only: ceil_three_tenths) simp

section \<open>The example runs\<close>

lemma toy_run: "run toy 0 = (toy_printed, Inr toy_ns)"
  by code_simp

lemma four_run: "run (toy_lib four_penguins) 0 = (four_printed, Inr four_ns)"
  by code_simp

lemma toy_perm: "mset (permutation toy 42 (nrows (X toy_ns))) = mset [0..<nrows (X toy_ns)]"
  by (simp add: toy_def toy_lib_def)

section \<open>The claims about a run\<close>

subsection \<open>The conclusion sentence\<close>

text \<open>
  Claim C1. In a run that reaches the end of the notebook, the sentence "has some
  predictive power" is printed if and only if the accuracy is a number strictly greater
  than \<open>1/2\<close>, the sentence "does not have predictive power" is printed if and only if
  it is not (an accuracy of exactly \<open>1/2\<close> and a NaN included), and the output holds
  exactly one of the two sentences.
\<close>
theorem conclusion_by_threshold:
  assumes "run lib entropy = (printed, Inr ns)"
  shows "(PrintText has_power \<in> set printed \<longleftrightarrow> (\<exists>a. accuracy ns = Finite a \<and> 1 / 2 < a))
       \<and> (PrintText no_power \<in> set printed \<longleftrightarrow> \<not> (\<exists>a. accuracy ns = Finite a \<and> 1 / 2 < a))
       \<and> length (filter (\<lambda>l. l = PrintText has_power \<or> l = PrintText no_power) printed) = 1"
proof -
  from assms obtain d out2 where
    c2: "cell2 lib entropy d = Inr (ns, out2)" and
    p: "printed = PrintFrame (repr_frame lib d) # out2"
    by (rule run_Inr)
  from c2 have out2: "out2 = [PrintAccuracy (accuracy ns),
      PrintText (if float_gt (accuracy ns) (Finite (1 / 2)) then has_power else no_power)]"
    by (rule cell2_Inr)
  have gt: "float_gt (accuracy ns) (Finite (1 / 2)) \<longleftrightarrow> (\<exists>a. accuracy ns = Finite a \<and> 1 / 2 < a)"
    by (cases "accuracy ns") simp_all
  show ?thesis
    unfolding p out2 gt [symmetric] using messages_differ by auto
qed

text \<open>
  Both branches are taken by the example runs: an accuracy of \<open>1/2\<close> on the five
  penguins, an accuracy of \<open>1\<close> on the four penguins.
\<close>
theorem conclusion_by_threshold_witness:
  "run toy 0 = (toy_printed, Inr toy_ns)
   \<and> run (toy_lib four_penguins) 0 = (four_printed, Inr four_ns)
   \<and> PrintText no_power \<in> set toy_printed \<and> PrintText has_power \<notin> set toy_printed
   \<and> accuracy toy_ns = Finite (1 / 2)
   \<and> PrintText has_power \<in> set four_printed \<and> PrintText no_power \<notin> set four_printed
   \<and> accuracy four_ns = Finite 1"
  using conclusion_by_threshold [OF toy_run] conclusion_by_threshold [OF four_run] toy_run four_run
  by (simp add: toy_ns_def four_ns_def)

subsection \<open>The split\<close>

text \<open>
  Claim C2. A table of fewer than two rows cannot be split: the split raises and the run
  ends there. In a run that reaches the end of the notebook, on a table of \<open>n\<close> rows
  and with a library permutation that is a permutation of the row positions, the test
  part is made of \<open>ceil (3/10 * n)\<close> rows, which is 30% of the rows rounded up to a whole
  row, and the training part of the other \<open>n - ceil (3/10 * n)\<close> rows. Both are
  non-empty, no row is in both, every row is in one of them, and the rows and their
  order are those of the permutation drawn with the seed 42: its first
  \<open>ceil (3/10 * n)\<close> entries are the test rows, the rest the training rows.
\<close>
theorem split_partition:
  assumes "run lib entropy = (printed, Inr ns)"
    and "mset (permutation lib 42 (nrows (X ns))) = mset [0..<nrows (X ns)]"
  shows "\<exists>train test.
           X_train ns = take_frame train (X ns) \<and> y_train ns = take_col train (y ns)
         \<and> X_test ns = take_frame test (X ns) \<and> y_test ns = take_col test (y ns)
         \<and> length_col (y ns) = nrows (X ns)
         \<and> length test = nat \<lceil>(3 / 10 :: rat) * of_nat (nrows (X ns))\<rceil>
         \<and> length train = nrows (X ns) - length test
         \<and> 3 * nrows (X ns) \<le> 10 * length test \<and> 10 * length test < 3 * nrows (X ns) + 10
         \<and> 0 < length test \<and> 0 < length train
         \<and> distinct train \<and> distinct test \<and> set train \<inter> set test = {}
         \<and> set train \<union> set test = {0..<nrows (X ns)}
         \<and> test @ train = permutation lib 42 (nrows (X ns))"
proof -
  from assms(1) obtain d out2 where c2: "cell2 lib entropy d = Inr (ns, out2)"
    by (rule run_Inr)
  from c2 obtain sex species train test where
    Xns: "X ns = [(''sex'', IntCol (cat_codes sex))]" and
    yns: "y ns = IntCol (cat_codes species)" and
    len: "length_col species = length_col sex" and
    split: "shuffle_split lib entropy (length_col sex) (3 / 10) (Some 42) = Inr (train, test)" and
    parts: "X_train ns = take_frame train (X ns)" "X_test ns = take_frame test (X ns)"
      "y_train ns = take_col train (y ns)" "y_test ns = take_col test (y ns)"
    by (rule cell2_Inr)
  have n: "nrows (X ns) = length_col sex"
    unfolding Xns by (simp add: nrows_def length_cat_codes)
  have ny: "length_col (y ns) = nrows (X ns)"
    unfolding n yns using len by (simp add: length_cat_codes)
  from split assms(2) have split': "shuffle_split lib entropy (nrows (X ns)) (3 / 10) (Some 42) = Inr (train, test)"
    by (simp only: n)
  note sizes = split_sizes [OF split' assms(2)]
  show ?thesis
    using parts ny sizes by blast
qed

theorem split_partition_witness:
  "run toy 0 = (toy_printed, Inr toy_ns)
   \<and> mset (permutation toy 42 (nrows (X toy_ns))) = mset [0..<nrows (X toy_ns)]
   \<and> (\<exists>train test. X_train toy_ns = take_frame train (X toy_ns)
          \<and> X_test toy_ns = take_frame test (X toy_ns)
          \<and> length test = 2 \<and> length train = 3
          \<and> set train \<inter> set test = {} \<and> set train \<union> set test = {0..<5})"
proof -
  have five: "nrows (X toy_ns) = 5"
    by (simp add: toy_ns_def nrows_def)
  have "nat \<lceil>(3 / 10 :: rat) * of_nat 5\<rceil> = 2"
    by (simp only: ceil_three_tenths)
  with split_partition [OF toy_run toy_perm] toy_run toy_perm show ?thesis
    unfolding five by (simp only:) fastforce
qed

subsection \<open>The encoding\<close>

text \<open>
  Claim C3. In a run that reaches the end of the notebook, the \<^verbatim>\<open>sex\<close> and
  \<^verbatim>\<open>species\<close> columns of the table have been replaced by the category codes of the
  loaded columns, and these codes are what \<^verbatim>\<open>X\<close> and \<^verbatim>\<open>y\<close> hold before the split and
  the fit. In each of the two columns there is one code per row, two rows have the same
  code exactly when they have the same value (two missing entries count as the same
  value), and a row has the code \<open>-1\<close> exactly when its entry is missing.
\<close>
theorem categorical_columns_encoded:
  assumes "run lib entropy = (printed, Inr ns)"
  shows "\<exists>d sex species.
           read_csv lib ''../data/penguins.csv'' = Inr d
         \<and> getitem d ''sex'' = Inr sex \<and> getitem d ''species'' = Inr species
         \<and> getitem (df ns) ''sex'' = Inr (IntCol (cat_codes sex))
         \<and> getitem (df ns) ''species'' = Inr (IntCol (cat_codes species))
         \<and> X ns = [(''sex'', IntCol (cat_codes sex))] \<and> y ns = IntCol (cat_codes species)
         \<and> (\<forall>c \<in> {sex, species}.
               length (cat_codes c) = length_col c
             \<and> (\<forall>i < length_col c. \<forall>j < length_col c.
                   (cat_codes c ! i = cat_codes c ! j) = (to_numpy c ! i = to_numpy c ! j))
             \<and> (\<forall>i < length_col c. (cat_codes c ! i = - 1) = (to_numpy c ! i = Missing)))"
proof -
  from assms obtain d sex species where
    rd: "read_csv lib ''../data/penguins.csv'' = Inr d" and
    cols: "getitem d ''sex'' = Inr sex" "getitem d ''species'' = Inr species" and
    dfns: "df ns = setitem (setitem d ''sex'' (IntCol (cat_codes sex))) ''species''
                     (IntCol (cat_codes species))" and
    Xy: "X ns = [(''sex'', IntCol (cat_codes sex))]" "y ns = IntCol (cat_codes species)"
    by (rule run_split)
  have enc: "getitem (df ns) ''sex'' = Inr (IntCol (cat_codes sex))"
    "getitem (df ns) ''species'' = Inr (IntCol (cat_codes species))"
    unfolding dfns by (simp_all add: getitem_setitem)
  have props: "length (cat_codes c) = length_col c
             \<and> (\<forall>i < length_col c. \<forall>j < length_col c.
                   (cat_codes c ! i = cat_codes c ! j) = (to_numpy c ! i = to_numpy c ! j))
             \<and> (\<forall>i < length_col c. (cat_codes c ! i = - 1) = (to_numpy c ! i = Missing))" for c
    by (simp add: length_cat_codes cat_codes_eq_iff cat_codes_missing)
  show ?thesis
    using rd cols enc Xy props by blast
qed

theorem categorical_columns_encoded_witness:
  "run toy 0 = (toy_printed, Inr toy_ns)
   \<and> getitem (df toy_ns) ''sex'' = Inr (IntCol [1, 0, - 1, 1, 0])
   \<and> getitem (df toy_ns) ''species'' = Inr (IntCol [0, 2, 0, 0, 1])
   \<and> cat_codes (ObjCol [Some ''MALE'', Some ''FEMALE'', None, Some ''MALE'', Some ''FEMALE''])
        = [1, 0, - 1, 1, 0]"
proof -
  have sex: "getitem penguins ''sex''
      = Inr (ObjCol [Some ''MALE'', Some ''FEMALE'', None, Some ''MALE'', Some ''FEMALE''])"
    by (simp add: penguins_def getitem_def)
  have dfsex: "getitem (df toy_ns) ''sex'' = Inr (IntCol [1, 0, - 1, 1, 0])"
    by (simp add: toy_ns_def getitem_def)
  have dfspecies: "getitem (df toy_ns) ''species'' = Inr (IntCol [0, 2, 0, 0, 1])"
    by (simp add: toy_ns_def getitem_def)
  have rd: "read_csv toy ''../data/penguins.csv'' = Inr penguins"
    by (simp add: toy_def toy_lib_def)
  from categorical_columns_encoded [OF toy_run] obtain d sexc where
    a: "read_csv toy ''../data/penguins.csv'' = Inr d" and
    b: "getitem d ''sex'' = Inr sexc" and
    c: "getitem (df toy_ns) ''sex'' = Inr (IntCol (cat_codes sexc))"
    by blast
  from a rd have "d = penguins"
    by simp
  with b sex have "sexc = ObjCol [Some ''MALE'', Some ''FEMALE'', None, Some ''MALE'', Some ''FEMALE'']"
    by simp
  with c dfsex have
    "cat_codes (ObjCol [Some ''MALE'', Some ''FEMALE'', None, Some ''MALE'', Some ''FEMALE''])
       = [1, 0, - 1, 1, 0]"
    by simp
  with toy_run dfsex dfspecies show ?thesis
    by (simp only: simp_thms)
qed

subsection \<open>Fitting and predicting\<close>

text \<open>
  Claim C4. In a run that reaches the end of the notebook, the estimator is fitted on a
  frame whose only column is \<^verbatim>\<open>sex\<close>, holding the sex codes of the training rows, with
  the species codes of the same rows as the target; the predictions are those of the
  fitted model on the one-column frame of the sex codes of the test rows; and no test
  row is a training row. The library's permutation is assumed to be a permutation of the
  row positions.
\<close>
theorem model_fit_and_predict:
  assumes "run lib entropy = (printed, Inr ns)"
    and "mset (permutation lib 42 (nrows (X ns))) = mset [0..<nrows (X ns)]"
  shows "\<exists>d sex species train test.
           read_csv lib ''../data/penguins.csv'' = Inr d
         \<and> getitem d ''sex'' = Inr sex \<and> getitem d ''species'' = Inr species
         \<and> shuffle_split lib entropy (length_col sex) (3 / 10) (Some 42) = Inr (train, test)
         \<and> fit lib [(''sex'', IntCol (map (\<lambda>i. cat_codes sex ! i) train))]
                    (IntCol (map (\<lambda>i. cat_codes species ! i) train)) = Inr (model ns)
         \<and> predict lib (model ns) [(''sex'', IntCol (map (\<lambda>i. cat_codes sex ! i) test))]
              = Inr (y_pred ns)
         \<and> set test \<inter> set train = {}
         \<and> set test \<subseteq> {0..<length_col sex} \<and> set train \<subseteq> {0..<length_col sex}"
proof -
  from assms(1) obtain d sex species train test where
    rd: "read_csv lib ''../data/penguins.csv'' = Inr d" and
    cols: "getitem d ''sex'' = Inr sex" "getitem d ''species'' = Inr species" and
    n: "nrows (X ns) = length_col sex" and
    split: "shuffle_split lib entropy (length_col sex) (3 / 10) (Some 42) = Inr (train, test)" and
    parts: "X_train ns = [(''sex'', IntCol (map (\<lambda>i. cat_codes sex ! i) train))]"
      "X_test ns = [(''sex'', IntCol (map (\<lambda>i. cat_codes sex ! i) test))]"
      "y_train ns = IntCol (map (\<lambda>i. cat_codes species ! i) train)" and
    calls: "fit lib (X_train ns) (y_train ns) = Inr (model ns)"
      "predict lib (model ns) (X_test ns) = Inr (y_pred ns)"
    by (rule run_split)
  from assms(2) have perm: "mset (permutation lib 42 (length_col sex)) = mset [0..<length_col sex]"
    by (simp only: n)
  from split_sizes(9) [OF split perm] have disj: "set test \<inter> set train = {}"
    by (simp add: Int_commute)
  from split_sizes(10) [OF split perm]
  have sub: "set test \<subseteq> {0..<length_col sex}" "set train \<subseteq> {0..<length_col sex}"
    by blast+
  from calls have
    "fit lib [(''sex'', IntCol (map (\<lambda>i. cat_codes sex ! i) train))]
             (IntCol (map (\<lambda>i. cat_codes species ! i) train)) = Inr (model ns)"
    "predict lib (model ns) [(''sex'', IntCol (map (\<lambda>i. cat_codes sex ! i) test))]
       = Inr (y_pred ns)"
    by (simp_all only: parts)
  with rd cols split disj sub show ?thesis
    by blast
qed

theorem model_fit_and_predict_witness:
  "run toy 0 = (toy_printed, Inr toy_ns)
   \<and> mset (permutation toy 42 (nrows (X toy_ns))) = mset [0..<nrows (X toy_ns)]
   \<and> shuffle_split toy 0 5 (3 / 10) (Some 42) = Inr ([2, 1, 0], [4, 3])
   \<and> fit toy [(''sex'', IntCol [- 1, 0, 1])] (IntCol [0, 2, 0]) = Inr (model toy_ns)
   \<and> predict toy (model toy_ns) [(''sex'', IntCol [0, 1])] = Inr (y_pred toy_ns)"
proof -
  have rd: "read_csv toy ''../data/penguins.csv'' = Inr penguins"
    by (simp add: toy_def toy_lib_def)
  have sex: "getitem penguins ''sex''
      = Inr (ObjCol [Some ''MALE'', Some ''FEMALE'', None, Some ''MALE'', Some ''FEMALE''])"
    by (simp add: penguins_def getitem_def)
  have species: "getitem penguins ''species''
      = Inr (ObjCol [Some ''Adelie'', Some ''Gentoo'', Some ''Adelie'', Some ''Adelie'',
                     Some ''Chinstrap''])"
    by (simp add: penguins_def getitem_def)
  have split: "shuffle_split toy 0 5 (3 / 10) (Some 42) = Inr ([2, 1, 0], [4, 3])"
    by code_simp
  have sexcodes:
    "cat_codes (ObjCol [Some ''MALE'', Some ''FEMALE'', None, Some ''MALE'', Some ''FEMALE''])
       = [1, 0, - 1, 1, 0]"
    by code_simp
  have speciescodes:
    "cat_codes (ObjCol [Some ''Adelie'', Some ''Gentoo'', Some ''Adelie'', Some ''Adelie'',
                        Some ''Chinstrap'']) = [0, 2, 0, 0, 1]"
    by code_simp
  from model_fit_and_predict [OF toy_run toy_perm] obtain d sexc speciesc train test where
    a: "read_csv toy ''../data/penguins.csv'' = Inr d" and
    b: "getitem d ''sex'' = Inr sexc" "getitem d ''species'' = Inr speciesc" and
    c: "shuffle_split toy 0 (length_col sexc) (3 / 10) (Some 42) = Inr (train, test)" and
    f: "fit toy [(''sex'', IntCol (map (\<lambda>i. cat_codes sexc ! i) train))]
                    (IntCol (map (\<lambda>i. cat_codes speciesc ! i) train)) = Inr (model toy_ns)" and
    p: "predict toy (model toy_ns) [(''sex'', IntCol (map (\<lambda>i. cat_codes sexc ! i) test))]
              = Inr (y_pred toy_ns)"
    by blast
  from a rd have d: "d = penguins"
    by simp
  from b sex species have cs:
    "sexc = ObjCol [Some ''MALE'', Some ''FEMALE'', None, Some ''MALE'', Some ''FEMALE'']"
    "speciesc = ObjCol [Some ''Adelie'', Some ''Gentoo'', Some ''Adelie'', Some ''Adelie'',
                        Some ''Chinstrap'']"
    unfolding d by simp_all
  have len5:
    "length_col (ObjCol [Some ''MALE'', Some ''FEMALE'', None, Some ''MALE'', Some ''FEMALE'']) = 5"
    by simp
  from c have "shuffle_split toy 0 5 (3 / 10) (Some 42) = Inr (train, test)"
    unfolding cs len5 .
  then have tt: "train = [2, 1, 0]" "test = [4, 3]"
    unfolding split by simp_all
  from f have f': "fit toy [(''sex'', IntCol [- 1, 0, 1])] (IntCol [0, 2, 0]) = Inr (model toy_ns)"
    unfolding cs tt sexcodes speciescodes by simp
  from p have p': "predict toy (model toy_ns) [(''sex'', IntCol [0, 1])] = Inr (y_pred toy_ns)"
    unfolding cs tt sexcodes by simp
  from toy_run toy_perm split f' p' show ?thesis
    by (simp only: simp_thms)
qed

subsection \<open>The accuracy\<close>

text \<open>
  Claim C5. In a run that reaches the end of the notebook, the true labels of the test
  rows are integer species codes, there is one prediction per test row and at least one
  test row, and the accuracy is the number of test rows whose prediction equals the true
  species code, divided by the number of test rows. The accuracy is the exact ratio
  here and the double nearest to it in Python. The library's permutation is assumed to be
  a permutation of the row positions.
\<close>
theorem accuracy_is_fraction_correct:
  assumes "run lib entropy = (printed, Inr ns)"
    and "mset (permutation lib 42 (nrows (X ns))) = mset [0..<nrows (X ns)]"
  shows "\<exists>truth.
           y_test ns = IntCol truth
         \<and> length truth = nrows (X_test ns) \<and> length_col (y_pred ns) = nrows (X_test ns)
         \<and> 0 < nrows (X_test ns)
         \<and> accuracy ns =
             Finite (of_nat (card {i. i < nrows (X_test ns)
                                    \<and> to_numpy (y_pred ns) ! i = Num (of_int (truth ! i))})
                     / of_nat (nrows (X_test ns)))"
proof -
  from assms(1) obtain sex species train test where
    n: "nrows (X ns) = length_col sex" and
    split: "shuffle_split lib entropy (length_col sex) (3 / 10) (Some 42) = Inr (train, test)" and
    Xt: "X_test ns = [(''sex'', IntCol (map (\<lambda>i. cat_codes sex ! i) test))]" and
    yt: "y_test ns = IntCol (map (\<lambda>i. cat_codes species ! i) test)" and
    acc: "accuracy_score (y_test ns) (y_pred ns) = Inr (accuracy ns)"
    by (rule run_split)
  define truth where "truth = map (\<lambda>i. cat_codes species ! i) test"
  from assms(2) have perm: "mset (permutation lib 42 (length_col sex)) = mset [0..<length_col sex]"
    by (simp only: n)
  have nt: "nrows (X_test ns) = length truth"
    unfolding Xt truth_def by (simp add: nrows_def)
  from split_sizes(3) [OF split perm] have pos: "0 < length truth"
    unfolding truth_def by simp
  from acc have len: "length_col (y_pred ns) = length truth"
    unfolding yt truth_def [symmetric] accuracy_score_def by (simp split: if_splits)
  from acc len have av: "accuracy ns
      = average (map2 scalar_eq (map (\<lambda>i. Num (of_int i)) truth) (to_numpy (y_pred ns)))"
    unfolding yt truth_def [symmetric] accuracy_score_def by simp
  have "accuracy ns
      = Finite (of_nat (card {i. i < length truth
                                \<and> scalar_eq (map (\<lambda>i. Num (of_int i)) truth ! i)
                                            (to_numpy (y_pred ns) ! i)})
                / of_nat (length truth))"
    unfolding av using pos len
    by (subst average_map2) (simp_all add: length_to_numpy)
  also have "{i. i < length truth \<and> scalar_eq (map (\<lambda>i. Num (of_int i)) truth ! i)
                                            (to_numpy (y_pred ns) ! i)}
      = {i. i < length truth \<and> to_numpy (y_pred ns) ! i = Num (of_int (truth ! i))}"
    by (auto simp: scalar_eq_def)
  finally have "accuracy ns
      = Finite (of_nat (card {i. i < length truth
                                \<and> to_numpy (y_pred ns) ! i = Num (of_int (truth ! i))})
                / of_nat (length truth))" .
  with yt pos len show ?thesis
    unfolding nt truth_def [symmetric] by blast
qed

theorem accuracy_is_fraction_correct_witness:
  "run toy 0 = (toy_printed, Inr toy_ns)
   \<and> mset (permutation toy 42 (nrows (X toy_ns))) = mset [0..<nrows (X toy_ns)]
   \<and> accuracy toy_ns
       = Finite (of_nat (card {i. i < 2 \<and> to_numpy (IntCol [0, 0]) ! i = Num (of_int ([1, 0] ! i))})
                 / of_nat 2)"
proof -
  have two: "nrows (X_test toy_ns) = 2"
    by (simp add: toy_ns_def nrows_def)
  from accuracy_is_fraction_correct [OF toy_run toy_perm] obtain truth where
    "y_test toy_ns = IntCol truth" and
    "accuracy toy_ns =
       Finite (of_nat (card {i. i < nrows (X_test toy_ns)
                              \<and> to_numpy (y_pred toy_ns) ! i = Num (of_int (truth ! i))})
               / of_nat (nrows (X_test toy_ns)))"
    by blast
  then have "truth = [1, 0]" and
    "accuracy toy_ns
       = Finite (of_nat (card {i. i < 2 \<and> to_numpy (IntCol [0, 0]) ! i = Num (of_int (truth ! i))})
                 / of_nat 2)"
    unfolding two by (simp_all add: toy_ns_def)
  with toy_run toy_perm show ?thesis
    by (simp only: simp_thms)
qed

subsection \<open>Reproducibility\<close>

text \<open>
  Claim C6. Two runs of the notebook in the same environment (the same file content,
  the same library functions) give the same output and the same final variables, the
  accuracy among them, whatever the ambient random state of each run is: the split is
  drawn from a generator seeded with 42, and no other step draws random numbers.
\<close>
theorem run_deterministic:
  "run lib entropy1 = run lib entropy2"
  unfolding run_def cell2_entropy [where ?entropy1.0 = entropy1 and ?entropy2.0 = entropy2] ..

subsection \<open>Standard output\<close>

text \<open>
  Claim C7, as stated, has the full loaded table on standard output. What \<^verbatim>\<open>print(df)\<close>
  writes is the rendering of the table, and the rendering of a table of more than 60
  rows shows ten of them. On a table of 344 rows, the number of rows behind the output
  stored in the notebook, the first thing on standard output shows the rows 0 to 4 and
  339 to 343 and the line with the numbers of rows and columns, as the stored output
  does; the other 334 rows are not printed.
\<close>
theorem full_table_printed_counterexample:
  "read_csv (toy_lib recorded_shape) ''../data/penguins.csv'' = Inr recorded_shape
   \<and> nrows recorded_shape = 344
   \<and> take 1 (fst (run (toy_lib recorded_shape) 0))
       = [PrintFrame (repr_frame (toy_lib recorded_shape) recorded_shape)]
   \<and> shown_index (repr_frame (toy_lib recorded_shape) recorded_shape)
       = [0, 1, 2, 3, 4, 339, 340, 341, 342, 343]
   \<and> map_of (shown_columns (repr_frame (toy_lib recorded_shape) recorded_shape)) ''sex''
       = Some [''MALE'', ''FEMALE'', ''FEMALE'', ''NaN'', ''FEMALE'',
               ''NaN'', ''FEMALE'', ''MALE'', ''FEMALE'', ''MALE'']
   \<and> dimensions (repr_frame (toy_lib recorded_shape) recorded_shape) = Some (344, 7)
   \<and> length (shown_index (repr_frame (toy_lib recorded_shape) recorded_shape))
       \<noteq> nrows recorded_shape"
proof -
  have rd: "read_csv (toy_lib recorded_shape) ''../data/penguins.csv'' = Inr recorded_shape"
    by (simp add: toy_lib_def)
  have n: "nrows recorded_shape = 344"
    by code_simp
  have idx: "shown_index (repr_frame (toy_lib recorded_shape) recorded_shape)
      = [0, 1, 2, 3, 4, 339, 340, 341, 342, 343]"
    by code_simp
  have sex: "map_of (shown_columns (repr_frame (toy_lib recorded_shape) recorded_shape)) ''sex''
      = Some [''MALE'', ''FEMALE'', ''FEMALE'', ''NaN'', ''FEMALE'',
              ''NaN'', ''FEMALE'', ''MALE'', ''FEMALE'', ''MALE'']"
    by code_simp
  have dims: "dimensions (repr_frame (toy_lib recorded_shape) recorded_shape) = Some (344, 7)"
    by code_simp
  have neq: "length (shown_index (repr_frame (toy_lib recorded_shape) recorded_shape))
      \<noteq> nrows recorded_shape"
    unfolding idx n by simp
  from rd n run_prints_frame_first [OF rd] idx sex dims neq show ?thesis
    by (simp only: simp_thms)
qed

text \<open>
  Claim C7, amended. The standard output of a run that reaches the end of the notebook
  is, in this order, the rendering of the loaded table, the accuracy line and one
  conclusion sentence. A run that ends in an exception has printed nothing when the file
  could not be read, and the rendering of the loaded table alone otherwise. So nothing is
  ever printed before the table. The rendering shows every row of a table of at most 60
  rows, and the first five and the last five rows of a longer one; it shows every column
  of a table of at most 20 columns, and the first ten and the last ten columns of a wider
  one; and it ends with the numbers of rows and columns exactly when something is left
  out. How an entry is written is the library's formatting.
\<close>
theorem output_order:
  assumes "run lib entropy = (printed, r)"
  shows "case read_csv lib ''../data/penguins.csv'' of
           Inl e \<Rightarrow> printed = [] \<and> r = Inl e
         | Inr d \<Rightarrow>
             (case r of
                Inl e \<Rightarrow> printed = [PrintFrame (repr_frame lib d)]
              | Inr ns \<Rightarrow>
                  printed = [PrintFrame (repr_frame lib d), PrintAccuracy (accuracy ns),
                             PrintText (if float_gt (accuracy ns) (Finite (1 / 2))
                                        then has_power else no_power)])
           \<and> shown_index (repr_frame lib d)
               = (if 60 < nrows d then [0..<5] @ [nrows d - 5..<nrows d] else [0..<nrows d])
           \<and> map fst (shown_columns (repr_frame lib d))
               = (if 20 < length d then map fst (take 10 d @ drop (length d - 10) d)
                  else map fst d)
           \<and> dimensions (repr_frame lib d)
               = (if 60 < nrows d \<or> 20 < length d then Some (nrows d, length d) else None)"
proof (cases "read_csv lib ''../data/penguins.csv''")
  case (Inl e)
  with assms show ?thesis
    by (auto simp: run_def cell1_def)
next
  case rd: (Inr d)
  have out: "case r of
      Inl e \<Rightarrow> printed = [PrintFrame (repr_frame lib d)]
    | Inr ns \<Rightarrow>
        printed = [PrintFrame (repr_frame lib d), PrintAccuracy (accuracy ns),
                   PrintText (if float_gt (accuracy ns) (Finite (1 / 2))
                              then has_power else no_power)]"
  proof (cases r)
    case (Inl e)
    with assms rd show ?thesis
      by (auto simp: run_def cell1_def split: sum.splits prod.splits)
  next
    case (Inr ns)
    with assms obtain d' out2 where
      rd': "read_csv lib ''../data/penguins.csv'' = Inr d'" and
      c2: "cell2 lib entropy d' = Inr (ns, out2)" and
      p: "printed = PrintFrame (repr_frame lib d') # out2"
      by (auto elim: run_Inr)
    from rd rd' have d': "d' = d"
      by simp
    from c2 have out2: "out2 = [PrintAccuracy (accuracy ns),
        PrintText (if float_gt (accuracy ns) (Finite (1 / 2)) then has_power else no_power)]"
      by (rule cell2_Inr)
    show ?thesis
      unfolding Inr p out2 d' by simp
  qed
  show ?thesis
    unfolding rd using out shown_index_repr [of lib d] shown_names_repr [of lib d]
      dimensions_repr [of lib d]
    by simp
qed

theorem output_order_witness:
  "run toy 0 = (toy_printed, Inr toy_ns)
   \<and> toy_printed
       = [PrintFrame (repr_frame toy penguins), PrintAccuracy (Finite (1 / 2)), PrintText no_power]
   \<and> shown_index (repr_frame toy penguins) = [0, 1, 2, 3, 4]
   \<and> map fst (shown_columns (repr_frame toy penguins)) = map fst penguins
   \<and> dimensions (repr_frame toy penguins) = None"
proof -
  have rd: "read_csv toy ''../data/penguins.csv'' = Inr penguins"
    by (simp add: toy_def toy_lib_def)
  have n: "nrows penguins = 5" "length penguins = 7"
    by (simp_all add: penguins_def nrows_def)
  have upt: "[0..<5] = [0, 1, 2, 3, 4 :: nat]"
    by code_simp
  have acc: "accuracy toy_ns = Finite (1 / 2)"
    by (simp add: toy_ns_def)
  from output_order [OF toy_run] toy_run show ?thesis
    by (simp add: rd n upt acc)
qed

subsection \<open>Loading\<close>

text \<open>
  Claim C8. The loader adds nothing to the reading routine. When reading the file at
  \<^verbatim>\<open>../data/penguins.csv\<close> raises, the run ends with that same exception and has
  printed nothing. When it returns a table, whatever table it is, that table becomes
  \<^verbatim>\<open>df\<close> and is what \<^verbatim>\<open>print\<close> is given. No other path is read: what reading returns for the
  other paths has no effect on the run.
\<close>
theorem loader_errors_propagate:
  "(read_csv lib ''../data/penguins.csv'' = Inl e \<longrightarrow> run lib entropy = ([], Inl e))
   \<and> (read_csv lib ''../data/penguins.csv'' = Inr d \<longrightarrow>
        cell1 lib = ([PrintFrame (repr_frame lib d)], Inr d))
   \<and> (f ''../data/penguins.csv'' = read_csv lib ''../data/penguins.csv'' \<longrightarrow>
        run (lib\<lparr>read_csv := f\<rparr>) entropy = run lib entropy)"
proof (intro conjI impI)
  assume "read_csv lib ''../data/penguins.csv'' = Inl e"
  then show "run lib entropy = ([], Inl e)"
    by (simp add: run_def cell1_def)
next
  assume "read_csv lib ''../data/penguins.csv'' = Inr d"
  then show "cell1 lib = ([PrintFrame (repr_frame lib d)], Inr d)"
    by (simp add: cell1_def)
next
  assume "f ''../data/penguins.csv'' = read_csv lib ''../data/penguins.csv''"
  then have "cell1 (lib\<lparr>read_csv := f\<rparr>) = cell1 lib"
    by (rule cell1_read_csv)
  then show "run (lib\<lparr>read_csv := f\<rparr>) entropy = run lib entropy"
    unfolding run_def cell2_read_csv by simp
qed

theorem loader_errors_propagate_witness:
  "run (toy\<lparr>read_csv := \<lambda>p. Inl (LibraryError ''FileNotFoundError'')\<rparr>) 0
     = ([], Inl (LibraryError ''FileNotFoundError''))
   \<and> cell1 toy = ([PrintFrame (repr_frame toy penguins)], Inr penguins)
   \<and> run (toy\<lparr>read_csv := \<lambda>p. Inr penguins\<rparr>) 0 = run toy 0"
  using
    loader_errors_propagate [of "toy\<lparr>read_csv := \<lambda>p. Inl (LibraryError ''FileNotFoundError'')\<rparr>"
      "LibraryError ''FileNotFoundError''" 0 penguins "\<lambda>p. Inr penguins"]
    loader_errors_propagate [of toy "LibraryError ''FileNotFoundError''" 0 penguins
       "\<lambda>p. Inr penguins"]
  by (simp add: toy_def toy_lib_def)

subsection \<open>Rows with missing values\<close>

text \<open>
  Claim C9. In a run that reaches the end of the notebook, a row whose sex (or species)
  is missing has the code \<open>-1\<close> in that column, and no row is dropped: the training and
  test rows together are all the rows of the loaded table, each once, and the feature
  column of each part holds the sex codes of its rows, \<open>-1\<close> for the rows without a
  recorded sex. The library's permutation is assumed to be a permutation of the row
  positions.
\<close>
theorem missing_rows_kept:
  assumes "run lib entropy = (printed, Inr ns)"
    and "mset (permutation lib 42 (nrows (X ns))) = mset [0..<nrows (X ns)]"
  shows "\<exists>d sex species train test.
           read_csv lib ''../data/penguins.csv'' = Inr d
         \<and> getitem d ''sex'' = Inr sex \<and> getitem d ''species'' = Inr species
         \<and> length_col species = length_col sex
         \<and> X_train ns = [(''sex'', IntCol (map (\<lambda>i. cat_codes sex ! i) train))]
         \<and> X_test ns = [(''sex'', IntCol (map (\<lambda>i. cat_codes sex ! i) test))]
         \<and> y_train ns = IntCol (map (\<lambda>i. cat_codes species ! i) train)
         \<and> y_test ns = IntCol (map (\<lambda>i. cat_codes species ! i) test)
         \<and> set train \<union> set test = {0..<length_col sex}
         \<and> length train + length test = length_col sex
         \<and> (\<forall>i < length_col sex. to_numpy sex ! i = Missing \<longrightarrow>
               cat_codes sex ! i = - 1 \<and> (i \<in> set train \<or> i \<in> set test))
         \<and> (\<forall>i < length_col species. to_numpy species ! i = Missing \<longrightarrow>
               cat_codes species ! i = - 1 \<and> (i \<in> set train \<or> i \<in> set test))"
proof -
  from assms(1) obtain d sex species train test where
    rd: "read_csv lib ''../data/penguins.csv'' = Inr d" and
    cols: "getitem d ''sex'' = Inr sex" "getitem d ''species'' = Inr species" and
    len: "length_col species = length_col sex" and
    n: "nrows (X ns) = length_col sex" and
    split: "shuffle_split lib entropy (length_col sex) (3 / 10) (Some 42) = Inr (train, test)" and
    parts: "X_train ns = [(''sex'', IntCol (map (\<lambda>i. cat_codes sex ! i) train))]"
      "X_test ns = [(''sex'', IntCol (map (\<lambda>i. cat_codes sex ! i) test))]"
      "y_train ns = IntCol (map (\<lambda>i. cat_codes species ! i) train)"
      "y_test ns = IntCol (map (\<lambda>i. cat_codes species ! i) test)"
    by (rule run_split)
  from assms(2) have perm: "mset (permutation lib 42 (length_col sex)) = mset [0..<length_col sex]"
    by (simp only: n)
  note sizes = split_sizes [OF split perm]
  have cover: "set train \<union> set test = {0..<length_col sex}"
    by (rule sizes(10))
  have "length test < length_col sex"
    using sizes(1) shuffle_split_Inr(3) [OF split] by simp
  with sizes(2) have total: "length train + length test = length_col sex"
    by simp
  have member: "i \<in> set train \<or> i \<in> set test" if "i < length_col sex" for i
    using that cover by auto
  have sexm: "\<forall>i < length_col sex. to_numpy sex ! i = Missing \<longrightarrow>
               cat_codes sex ! i = - 1 \<and> (i \<in> set train \<or> i \<in> set test)"
    using member by (simp add: cat_codes_missing)
  have speciesm: "\<forall>i < length_col species. to_numpy species ! i = Missing \<longrightarrow>
               cat_codes species ! i = - 1 \<and> (i \<in> set train \<or> i \<in> set test)"
    using member len by (simp add: cat_codes_missing)
  from rd cols len parts cover total sexm speciesm show ?thesis
    by blast
qed

theorem missing_rows_kept_witness:
  "run toy 0 = (toy_printed, Inr toy_ns)
   \<and> mset (permutation toy 42 (nrows (X toy_ns))) = mset [0..<nrows (X toy_ns)]
   \<and> to_numpy (ObjCol [Some ''MALE'', Some ''FEMALE'', None, Some ''MALE'', Some ''FEMALE'']) ! 2
       = Missing
   \<and> cat_codes (ObjCol [Some ''MALE'', Some ''FEMALE'', None, Some ''MALE'', Some ''FEMALE'']) ! 2
       = - 1
   \<and> X_train toy_ns = [(''sex'', IntCol [- 1, 0, 1])]"
proof -
  have rd: "read_csv toy ''../data/penguins.csv'' = Inr penguins"
    by (simp add: toy_def toy_lib_def)
  have sex: "getitem penguins ''sex''
      = Inr (ObjCol [Some ''MALE'', Some ''FEMALE'', None, Some ''MALE'', Some ''FEMALE''])"
    by (simp add: penguins_def getitem_def)
  have miss:
    "to_numpy (ObjCol [Some ''MALE'', Some ''FEMALE'', None, Some ''MALE'', Some ''FEMALE'']) ! 2
       = Missing"
    by simp
  from missing_rows_kept [OF toy_run toy_perm] obtain d sexc where
    a: "read_csv toy ''../data/penguins.csv'' = Inr d" and
    b: "getitem d ''sex'' = Inr sexc" and
    m: "\<forall>i < length_col sexc. to_numpy sexc ! i = Missing \<longrightarrow> cat_codes sexc ! i = - 1"
    by blast
  from a rd have d: "d = penguins"
    by simp
  from b sex have cs:
    "sexc = ObjCol [Some ''MALE'', Some ''FEMALE'', None, Some ''MALE'', Some ''FEMALE'']"
    unfolding d by simp
  from m miss have
    "cat_codes (ObjCol [Some ''MALE'', Some ''FEMALE'', None, Some ''MALE'', Some ''FEMALE'']) ! 2
       = - 1"
    unfolding cs by simp
  moreover have "X_train toy_ns = [(''sex'', IntCol [- 1, 0, 1])]"
    by (simp add: toy_ns_def)
  ultimately show ?thesis
    using toy_run toy_perm miss by (simp only: simp_thms)
qed

subsection \<open>Columns that are left alone\<close>

text \<open>
  Claim C10. At the end of a run the table has the same column names in the same order
  as the loaded one, and every column other than \<^verbatim>\<open>sex\<close> and \<^verbatim>\<open>species\<close> is the
  column that was loaded; in particular \<^verbatim>\<open>island\<close>, \<^verbatim>\<open>culmen_length_mm\<close>,
  \<^verbatim>\<open>culmen_depth_mm\<close>, \<^verbatim>\<open>flipper_length_mm\<close> and \<^verbatim>\<open>body_mass_g\<close>.
\<close>
theorem other_columns_unchanged:
  assumes "run lib entropy = (printed, Inr ns)"
  shows "\<exists>d. read_csv lib ''../data/penguins.csv'' = Inr d
       \<and> map fst (df ns) = map fst d
       \<and> (\<forall>k. k \<noteq> ''sex'' \<and> k \<noteq> ''species'' \<longrightarrow> getitem (df ns) k = getitem d k)
       \<and> getitem (df ns) ''island'' = getitem d ''island''
       \<and> getitem (df ns) ''culmen_length_mm'' = getitem d ''culmen_length_mm''
       \<and> getitem (df ns) ''culmen_depth_mm'' = getitem d ''culmen_depth_mm''
       \<and> getitem (df ns) ''flipper_length_mm'' = getitem d ''flipper_length_mm''
       \<and> getitem (df ns) ''body_mass_g'' = getitem d ''body_mass_g''"
proof -
  from assms obtain d out2 where
    rd: "read_csv lib ''../data/penguins.csv'' = Inr d" and
    c2: "cell2 lib entropy d = Inr (ns, out2)"
    by (rule run_Inr)
  from c2 obtain sex species where
    sex: "getitem d ''sex'' = Inr sex" and species: "getitem d ''species'' = Inr species" and
    dfns: "df ns = setitem (setitem d ''sex'' (IntCol (cat_codes sex))) ''species''
                     (IntCol (cat_codes species))"
    by (rule cell2_Inr)
  have n1: "map fst (setitem d ''sex'' (IntCol (cat_codes sex))) = map fst d"
    using sex by (intro names_setitem getitem_Inr_name)
  have "''species'' \<in> fst ` set d"
    using species by (rule getitem_Inr_name)
  then have "''species'' \<in> fst ` set (setitem d ''sex'' (IntCol (cat_codes sex)))"
    using n1 by (metis list.set_map)
  then have names: "map fst (df ns) = map fst d"
    unfolding dfns using n1 by (simp add: names_setitem)
  have other: "getitem (df ns) k = getitem d k" if "k \<noteq> ''sex''" "k \<noteq> ''species''" for k
    unfolding dfns using that by (simp add: getitem_setitem)
  show ?thesis
    using rd names other by simp
qed

theorem other_columns_unchanged_witness:
  "run toy 0 = (toy_printed, Inr toy_ns)
   \<and> getitem (df toy_ns) ''island'' = getitem penguins ''island''
   \<and> getitem (df toy_ns) ''body_mass_g'' = getitem penguins ''body_mass_g''
   \<and> map fst (df toy_ns) = map fst penguins"
  using other_columns_unchanged [OF toy_run] toy_run
  by (simp add: toy_def toy_lib_def)

end
